theory Spec2Isabelle
  imports Main "HOL-Library.Char_ord" "HOL-Library.List_Lexorder" "HOL-Library.AList"
begin

section \<open>Values, errors and strings\<close>

text \<open>
  The program is a Flask application (\<^verbatim>\<open>app.py\<close>) whose handlers move JSON documents
  between a document store, three remote services and a markdown template.  Every value
  the handlers touch is a parsed JSON value, so the model has one type of values.
  Python's \<^verbatim>\<open>None\<close> is \<open>JNull\<close>.  JSON numbers are modelled as integers (floating point
  is outside the model).  A dictionary is an association list read with \<open>map_of\<close>.

  Strings are \<open>char list\<close>s holding UTF-8 bytes.  The character classes of the source
  (\<^verbatim>\<open>\s\<close>, \<^verbatim>\<open>\d\<close>, \<^verbatim>\<open>str.strip\<close>, \<^verbatim>\<open>str.upper\<close>) are modelled on ASCII: for
  code points above 127 the model treats every byte as an ordinary character.
\<close>

datatype jval =
    JNull
  | JBool bool
  | JInt int
  | JStr string
  | JList "jval list"
  | JDict "(string \<times> jval) list"

text \<open>Exceptions the handlers do not catch.  \<open>Unmodelled\<close> marks store updates whose
  field names are update paths or operators, which the model does not interpret.\<close>

datatype py_error =
    AttributeError
  | IndexError
  | KeyError
  | TypeError
  | InvalidId
  | WriteError
  | Unmodelled

text \<open>Python truthiness (\<^verbatim>\<open>if x\<close>, \<^verbatim>\<open>not x\<close>, \<^verbatim>\<open>all([...])\<close>).\<close>

fun truthy :: "jval \<Rightarrow> bool" where
  "truthy JNull = False"
| "truthy (JBool b) = b"
| "truthy (JInt n) = (n \<noteq> 0)"
| "truthy (JStr s) = (s \<noteq> [])"
| "truthy (JList xs) = (xs \<noteq> [])"
| "truthy (JDict kvs) = (kvs \<noteq> [])"

text \<open>\<^verbatim>\<open>d.get(k, default)\<close>: only a dictionary has \<^verbatim>\<open>get\<close>.\<close>

fun py_get :: "jval \<Rightarrow> string \<Rightarrow> jval \<Rightarrow> py_error + jval" where
  "py_get (JDict kvs) k dflt = Inr (case map_of kvs k of None \<Rightarrow> dflt | Some v \<Rightarrow> v)"
| "py_get _ k dflt = Inl AttributeError"

text \<open>\<^verbatim>\<open>x[0]\<close>: the first element of a list or string; a dictionary from JSON has
  no integer key.\<close>

fun py_index0 :: "jval \<Rightarrow> py_error + jval" where
  "py_index0 (JList []) = Inl IndexError"
| "py_index0 (JList (x # xs)) = Inr x"
| "py_index0 (JStr []) = Inl IndexError"
| "py_index0 (JStr (c # cs)) = Inr (JStr [c])"
| "py_index0 (JDict kvs) = Inl KeyError"
| "py_index0 _ = Inl TypeError"

definition isspace :: "char \<Rightarrow> bool" where
  "isspace c = (let n = (of_char c :: nat) in (9 \<le> n \<and> n \<le> 13) \<or> (28 \<le> n \<and> n \<le> 32))"

definition isdigit :: "char \<Rightarrow> bool" where
  "isdigit c = (let n = (of_char c :: nat) in 48 \<le> n \<and> n \<le> 57)"

text \<open>\<^verbatim>\<open>s.strip()\<close>, \<^verbatim>\<open>s.lstrip('v')\<close>, \<^verbatim>\<open>s.upper()\<close>, \<^verbatim>\<open>sep.join(xs)\<close>.\<close>

definition strip :: "string \<Rightarrow> string" where
  "strip s = rev (dropWhile isspace (rev (dropWhile isspace s)))"

definition lstrip_v :: "string \<Rightarrow> string" where
  "lstrip_v s = dropWhile (\<lambda>c. c = CHR ''v'') s"

definition upper_char :: "char \<Rightarrow> char" where
  "upper_char c = (let n = (of_char c :: nat) in if 97 \<le> n \<and> n \<le> 122 then char_of (n - 32) else c)"

definition upper :: "string \<Rightarrow> string" where
  "upper s = map upper_char s"

fun join :: "string \<Rightarrow> string list \<Rightarrow> string" where
  "join sep [] = []"
| "join sep [x] = x"
| "join sep (x # y # ys) = x @ sep @ join sep (y # ys)"

definition NL :: string where
  "NL = [CHR 0x0A]"

definition DQ :: string where
  "DQ = [CHR 0x22]"

text \<open>
  \<^verbatim>\<open>re.split(r'[,\s\n]+', s)\<close>: the pieces between maximal runs of separators, the
  empty pieces at both ends included.  \<open>re_split\<close> scans a piece, \<open>re_split_skip\<close> is
  inside a run of separators.  \<^verbatim>\<open>filter(None, ...)\<close> then drops the empty pieces.
\<close>

definition is_sep :: "char \<Rightarrow> bool" where
  "is_sep c = (c = CHR '','' \<or> isspace c \<or> c = CHR 0x0A)"

fun re_split :: "string \<Rightarrow> string \<Rightarrow> string list"
  and re_split_skip :: "string \<Rightarrow> string list" where
  "re_split [] cur = [cur]"
| "re_split (c # cs) cur =
     (if is_sep c then cur # re_split_skip cs else re_split cs (cur @ [c]))"
| "re_split_skip [] = [[]]"
| "re_split_skip (c # cs) =
     (if is_sep c then re_split_skip cs else re_split cs [c])"

definition split_fields :: "string \<Rightarrow> string list" where
  "split_fields s = filter (\<lambda>t. t \<noteq> []) (re_split s [])"

text \<open>Exceptions propagate: the second computation runs only when the first returned.\<close>

fun bind_err :: "py_error + 'a \<Rightarrow> ('a \<Rightarrow> py_error + 'b) \<Rightarrow> py_error + 'b" where
  "bind_err (Inl e) f = Inl e"
| "bind_err (Inr x) f = f x"

text \<open>\<^verbatim>\<open>d[k]\<close> with a string key.\<close>

fun py_getitem :: "jval \<Rightarrow> string \<Rightarrow> py_error + jval" where
  "py_getitem (JDict kvs) k = (case map_of kvs k of None \<Rightarrow> Inl KeyError | Some v \<Rightarrow> Inr v)"
| "py_getitem _ k = Inl TypeError"

section \<open>The text extractor\<close>

text \<open>
  \<^verbatim>\<open>node.get("type") == "text" and "text" in node\<close> selects the nodes whose
  \<^verbatim>\<open>node["text"]\<close> is appended; \<^verbatim>\<open>"content" in node and isinstance(node["content"], list)\<close>
  selects the nodes whose children are visited.
\<close>

definition text_of :: "(string \<times> jval) list \<Rightarrow> jval option" where
  "text_of d = (if map_of d ''type'' = Some (JStr ''text'') then map_of d ''text'' else None)"

definition content_list :: "(string \<times> jval) list \<Rightarrow> jval list option" where
  "content_list d = (case map_of d ''content'' of Some (JList cs) \<Rightarrow> Some cs | _ \<Rightarrow> None)"

lemma size_map_of: "map_of kvs k = Some v \<Longrightarrow> size v < size (JDict kvs)"
  by (induction kvs) (auto split: if_splits)

lemma size_content_list: "content_list d = Some cs \<Longrightarrow> size_list size cs < size (JDict d)"
  using size_map_of [of d "''content''" "JList cs"]
  by (auto simp: content_list_def split: option.splits jval.splits)

text \<open>The inner function \<^verbatim>\<open>recurse(nodes)\<close>; the list \<^verbatim>\<open>text_content\<close> it appends to
  is the accumulator.  \<^verbatim>\<open>node.get\<close> on a node that is not a dictionary raises.\<close>

function recurse :: "jval list \<Rightarrow> jval list \<Rightarrow> py_error + jval list" where
  "recurse [] acc = Inr acc"
| "recurse (node # nodes) acc =
     (case node of
        JDict d \<Rightarrow>
          (let acc1 = (case text_of d of Some t \<Rightarrow> acc @ [t] | None \<Rightarrow> acc)
           in case content_list d of
                Some cs \<Rightarrow> bind_err (recurse cs acc1) (\<lambda>acc2. recurse nodes acc2)
              | None \<Rightarrow> recurse nodes acc1)
      | _ \<Rightarrow> Inl AttributeError)"
  by pat_completeness auto
termination
  by (relation "measure (\<lambda>(nodes, acc). size_list size nodes)")
     (auto dest: size_content_list)

text \<open>\<^verbatim>\<open>" ".join(text_content)\<close> raises on an item that is not a string.\<close>

fun join_jvals :: "string \<Rightarrow> jval list \<Rightarrow> string list \<Rightarrow> py_error + string" where
  "join_jvals sep [] out = Inr (join sep out)"
| "join_jvals sep (JStr s # vs) out = join_jvals sep vs (out @ [s])"
| "join_jvals sep (_ # vs) out = Inl TypeError"

text \<open>The loop \<^verbatim>\<open>for node in nodes\<close> at the top level meets whatever \<^verbatim>\<open>"content"\<close>
  holds: a list is visited; an empty string or dictionary has nothing to visit, a
  non-empty one yields strings, on which \<^verbatim>\<open>node.get\<close> raises; other values are not iterable.\<close>

fun parse_jira_description :: "jval \<Rightarrow> py_error + string" where
  "parse_jira_description (JDict d) =
     (case map_of d ''content'' of
        None \<Rightarrow> Inr []
      | Some (JList nodes) \<Rightarrow> bind_err (recurse nodes []) (\<lambda>ts. join_jvals '' '' ts [])
      | Some (JStr s) \<Rightarrow> (if s = [] then Inr [] else Inl AttributeError)
      | Some (JDict kvs) \<Rightarrow> (if kvs = [] then Inr [] else Inl AttributeError)
      | Some _ \<Rightarrow> Inl TypeError)"
| "parse_jira_description _ = Inr []"

text \<open>The document tree in the words of the specification: the children of a node, the
  nodes of a tree in depth-first pre-order, and the strings of the nodes tagged "text".\<close>

fun children :: "jval \<Rightarrow> jval list" where
  "children (JDict d) = (case content_list d of Some cs \<Rightarrow> cs | None \<Rightarrow> [])"
| "children _ = []"

lemma size_children: "c \<in> set (children n) \<Longrightarrow> size c < size n"
proof (cases n)
  case (JDict d)
  assume c: "c \<in> set (children n)"
  show ?thesis
  proof (cases "content_list d")
    case None
    with c JDict show ?thesis by simp
  next
    case (Some cs)
    with c JDict have "size c \<le> size_list size cs"
      by (simp add: size_list_estimation')
    with size_content_list [OF Some] show ?thesis using JDict by simp
  qed
qed auto

function preorder :: "jval \<Rightarrow> jval list" where
  "preorder n = n # concat (map preorder (children n))"
  by pat_completeness auto
termination
  by (relation "measure size") (auto dest: size_children)

definition preorder_all :: "jval list \<Rightarrow> jval list" where
  "preorder_all nodes = concat (map preorder nodes)"

fun node_text :: "jval \<Rightarrow> jval option" where
  "node_text (JDict d) = text_of d"
| "node_text _ = None"

fun the_str :: "jval \<Rightarrow> string" where
  "the_str (JStr s) = s"
| "the_str _ = []"

definition leaf_texts :: "jval list \<Rightarrow> string list" where
  "leaf_texts nodes = map the_str (List.map_filter node_text (preorder_all nodes))"

text \<open>A node of a rich-text document is a dictionary, and what a text node carries is
  a string.\<close>

fun is_node :: "jval \<Rightarrow> bool" where
  "is_node (JDict d) = (case text_of d of Some (JStr s) \<Rightarrow> True | Some _ \<Rightarrow> False | None \<Rightarrow> True)"
| "is_node _ = False"

definition document_tree :: "jval list \<Rightarrow> bool" where
  "document_tree nodes = list_all is_node (preorder_all nodes)"

section \<open>Version extraction\<close>

text \<open>
  \<^verbatim>\<open>re.search(r'(\d+\.\d+\.\d+)', url)\<close>, written inline in \<^verbatim>\<open>generate_mongo_intro\<close>
  and in \<^verbatim>\<open>process_upstream_bugs\<close>.  \<open>match_triplet\<close> is the match anchored at the start of
  the string: each \<^verbatim>\<open>\d+\<close> is greedy and takes the whole run of digits, which
  \<open>digit_run\<close> splits off (giving digits back cannot help, since the next character
  wanted is a dot, not a digit); \<open>dot\<close> is \<^verbatim>\<open>\.\<close>.
  \<open>re_search\<close> tries the positions from left to right and returns group 1 of the first match.
\<close>

definition digit_run :: "string \<Rightarrow> (string \<times> string) option" where
  "digit_run s =
     (let a = takeWhile isdigit s in if a = [] then None else Some (a, dropWhile isdigit s))"

fun dot :: "string \<Rightarrow> string option" where
  "dot [] = None"
| "dot (c # cs) = (if c = CHR ''.'' then Some cs else None)"

definition match_triplet :: "string \<Rightarrow> string option" where
  "match_triplet s =
     Option.bind (digit_run s) (\<lambda>(a, r1).
     Option.bind (dot r1) (\<lambda>s2.
     Option.bind (digit_run s2) (\<lambda>(b, r2).
     Option.bind (dot r2) (\<lambda>s3.
     Option.bind (digit_run s3) (\<lambda>(c, r3).
     Some (a @ ''.'' @ b @ ''.'' @ c))))))"

fun re_search :: "string \<Rightarrow> string option" where
  "re_search [] = None"
| "re_search (c # cs) =
     (case match_triplet (c # cs) of Some v \<Rightarrow> Some v | None \<Rightarrow> re_search cs)"




section \<open>Remote services and the clock\<close>

text \<open>
  The handlers call three remote services and read the clock.  Their answers are inputs
  of the model, so they are fields of an environment:
  \<^item> \<open>jira_get url email token\<close>: the \<^verbatim>\<open>requests.get\<close> of \<^verbatim>\<open>fetch_jira_ticket\<close> followed by
    \<^verbatim>\<open>raise_for_status()\<close> and \<^verbatim>\<open>response.json()\<close>;
  \<^item> \<open>gemini_post url prompt\<close>: the \<^verbatim>\<open>requests.post\<close> of \<^verbatim>\<open>get_summary_from_ai\<close>, likewise;
  \<^item> \<open>scrape_get url\<close>: the \<^verbatim>\<open>requests.get\<close> of \<^verbatim>\<open>process_upstream_bugs\<close> and the two
    \<^verbatim>\<open>soup.find\<close> calls, giving the text of each element found;
  \<^item> \<open>set_order\<close>: the order in which Python iterates \<^verbatim>\<open>list(set(xs))\<close>;
  \<^item> \<open>py_repr\<close>: what an f-string prints for a value that is not a string;
  \<^item> \<open>now_long\<close>, \<open>now_iso\<close>: \<^verbatim>\<open>datetime.now()\<close> formatted with \<^verbatim>\<open>"%b %d, %Y"\<close> and
    \<^verbatim>\<open>"%Y-%m-%d"\<close>.
  \<open>RequestException\<close> stands for every exception of that class, the only one the source
  catches.  Every request sent is recorded, in order, in a list of calls.
\<close>

datatype http_result = RequestException | Json jval

datatype scrape_result = ScrapeFailed | Page "string option" "string option"

datatype call =
    JiraGet string jval jval
  | GeminiPost string string
  | ScrapeGet string

record env =
  jira_get :: "string \<Rightarrow> jval \<Rightarrow> jval \<Rightarrow> http_result"
  gemini_post :: "string \<Rightarrow> string \<Rightarrow> http_result"
  scrape_get :: "string \<Rightarrow> scrape_result"
  set_order :: "string list \<Rightarrow> string list"
  py_repr :: "jval \<Rightarrow> string"
  now_long :: string
  now_iso :: string

type_synonym 'a io = "(py_error + 'a) \<times> call list"

fun bind_io :: "'a io \<Rightarrow> ('a \<Rightarrow> 'b io) \<Rightarrow> 'b io" where
  "bind_io (Inl e, cs) f = (Inl e, cs)"
| "bind_io (Inr x, cs) f = (case f x of (r, cs') \<Rightarrow> (r, cs @ cs'))"

definition pure_io :: "py_error + 'a \<Rightarrow> 'a io" where
  "pure_io r = (r, [])"

definition py_str :: "env \<Rightarrow> jval \<Rightarrow> string" where
  "py_str env v = (case v of JStr s \<Rightarrow> s | _ \<Rightarrow> py_repr env v)"

section \<open>The ticket fetcher and the summarizer\<close>

text \<open>\<^verbatim>\<open>fetch_jira_ticket\<close> returns the parsed answer, or \<^verbatim>\<open>None\<close> when the request
  raised.\<close>

definition fetch_jira_ticket :: "env \<Rightarrow> jval \<Rightarrow> jval \<Rightarrow> jval \<Rightarrow> string \<Rightarrow> jval \<times> call list" where
  "fetch_jira_ticket env domain email token key =
     (let url = ''https://'' @ py_str env domain @ ''/rest/api/3/issue/'' @ key in
      (case jira_get env url email token of
         RequestException \<Rightarrow> JNull
       | Json v \<Rightarrow> v,
       [JiraGet url email token]))"

text \<open>\<^verbatim>\<open>title[:30]\<close>, evaluated for the log line: only strings and lists can be sliced.\<close>

fun slice_title :: "jval \<Rightarrow> py_error + unit" where
  "slice_title (JStr s) = Inr ()"
| "slice_title (JList xs) = Inr ()"
| "slice_title _ = Inl TypeError"

definition prompt_intro :: "bool \<Rightarrow> string" where
  "prompt_intro is_upstream =
     (if is_upstream
      then ''Generate a concise, user-friendly summary for an upstream bug fix. The summary should be a single, clear sentence explaining the fix from an end-user's perspective.''
      else ''Generate a concise, user-friendly summary for a software release note based on the following JIRA ticket details. The summary should be a single, clear sentence explaining the change from an end-user's perspective.'')"

definition build_prompt :: "env \<Rightarrow> bool \<Rightarrow> jval \<Rightarrow> string \<Rightarrow> string" where
  "build_prompt env is_upstream title description =
     prompt_intro is_upstream
     @ '' Do not start with phrases like '' @ DQ @ ''This ticket'' @ DQ @ '' or '' @ DQ
     @ ''The user can now'' @ DQ @ ''. Just state the change directly.'' @ NL
     @ ''Original JIRA Title: '' @ DQ @ py_str env title @ DQ @ NL
     @ ''JIRA Description: '' @ DQ @ description @ DQ @ NL
     @ ''Release Note Summary:''"

definition api_url :: "env \<Rightarrow> jval \<Rightarrow> string" where
  "api_url env gemini_token =
     ''https://generativelanguage.googleapis.com/v1beta/models/gemini-2.5-flash-preview-05-20:generateContent?key=''
     @ py_str env gemini_token"

text \<open>\<^verbatim>\<open>result.get("candidates", [{}])[0].get("content", {}).get("parts", [{}])[0].get("text", "")\<close>\<close>

definition extract_text :: "jval \<Rightarrow> py_error + jval" where
  "extract_text result =
     bind_err (py_get result ''candidates'' (JList [JDict []])) (\<lambda>candidates.
     bind_err (py_index0 candidates) (\<lambda>candidate.
     bind_err (py_get candidate ''content'' (JDict [])) (\<lambda>content.
     bind_err (py_get content ''parts'' (JList [JDict []])) (\<lambda>parts.
     bind_err (py_index0 parts) (\<lambda>part.
     py_get part ''text'' (JStr []))))))"

text \<open>\<^verbatim>\<open>summary.strip() if summary else title\<close>\<close>

definition summary_or_title :: "jval \<Rightarrow> jval \<Rightarrow> py_error + jval" where
  "summary_or_title summary title =
     (if truthy summary
      then (case summary of JStr s \<Rightarrow> Inr (JStr (strip s)) | _ \<Rightarrow> Inl AttributeError)
      else Inr title)"

text \<open>
  \<^verbatim>\<open>get_summary_from_ai(title, description, gemini_token, is_upstream)\<close>.  The description
  is a string at both call sites.  Inside the \<^verbatim>\<open>try\<close>, an exception that is not a
  \<^verbatim>\<open>RequestException\<close> propagates; the handler of \<^verbatim>\<open>RequestException\<close> slices the title
  for its log line before it returns the title.
\<close>

definition get_summary_from_ai :: "env \<Rightarrow> jval \<Rightarrow> string \<Rightarrow> jval \<Rightarrow> bool \<Rightarrow> jval io" where
  "get_summary_from_ai env title description gemini_token is_upstream =
     (if description = [] \<or> strip description = [] then (Inr title, [])
      else
        let url = api_url env gemini_token;
            prompt = build_prompt env is_upstream title description
        in (case gemini_post env url prompt of
              Json result \<Rightarrow>
                bind_err (extract_text result) (\<lambda>summary.
                bind_err (slice_title title) (\<lambda>_.
                summary_or_title summary title))
            | RequestException \<Rightarrow>
                bind_err (slice_title title) (\<lambda>_. Inr title),
            [GeminiPost url prompt]))"

section \<open>The intro paragraph and the upstream section\<close>

text \<open>The guard \<^verbatim>\<open>if not x or not x.strip()\<close>: a falsy value and a blank string give
  \<open>None\<close>, a string with text gives the string, and \<^verbatim>\<open>strip\<close> on another truthy value
  raises.\<close>

definition nonblank :: "jval \<Rightarrow> py_error + string option" where
  "nonblank v =
     (if \<not> truthy v then Inr None
      else case v of
             JStr s \<Rightarrow> Inr (if strip s = [] then None else Some s)
           | _ \<Rightarrow> Inl AttributeError)"

definition mongo_link :: "string \<Rightarrow> string \<Rightarrow> string" where
  "mongo_link mongo_version url = ''[MongoDB '' @ mongo_version @ '' Community Edition]('' @ url @ '')''"

text \<open>The loop of \<^verbatim>\<open>generate_mongo_intro\<close> over the URLs; a URL without a version is
  skipped.\<close>

fun intro_loop :: "string list \<Rightarrow> string list \<times> string list \<Rightarrow> string list \<times> string list" where
  "intro_loop [] (mongo_links, versions) = (mongo_links, versions)"
| "intro_loop (url # urls) (mongo_links, versions) =
     (case re_search url of
        Some mongo_version \<Rightarrow>
          intro_loop urls (mongo_links @ [mongo_link mongo_version url], versions @ [mongo_version])
      | None \<Rightarrow> intro_loop urls (mongo_links, versions))"

text \<open>\<^verbatim>\<open>version.lstrip('v') if version else "X.Y.Z"\<close>\<close>

definition display_version :: "jval \<Rightarrow> py_error + string" where
  "display_version version =
     (if truthy version
      then (case version of JStr v \<Rightarrow> Inr (lstrip_v v) | _ \<Rightarrow> Inl AttributeError)
      else Inr ''X.Y.Z'')"

definition intro_text :: "string \<Rightarrow> string \<Rightarrow> string list \<Rightarrow> string list \<Rightarrow> string" where
  "intro_text dv current_date mongo_links versions =
     ''Percona Server for MongoDB '' @ dv @ '' ('' @ current_date @ '')'' @ NL
     @ ''[Install](../install/index.md){.md-button}'' @ NL
     @ ''[Upgrade from MongoDB Community](../install/upgrade-from-mongodb.md){.md-button}'' @ NL
     @ ''Percona Server for MongoDB '' @ dv
     @ '' is an enhanced, source-available, and highly-scalable database that is a'' @ NL
     @ ''fully-compatible, drop-in replacement for MongoDB Community Edition.'' @ NL
     @ ''Percona Server for MongoDB '' @ dv @ '' includes the improvements and bug fixes of ''
     @ join '', '' mongo_links @ ''.'' @ NL
     @ ''It supports protocols and drivers of MongoDB Community ''
     @ join '' through '' (sort versions) @ ''.'' @ NL"

definition generate_mongo_intro :: "env \<Rightarrow> jval \<Rightarrow> jval \<Rightarrow> py_error + string" where
  "generate_mongo_intro env urls_raw version =
     bind_err (nonblank urls_raw) (\<lambda>r.
       case r of
         None \<Rightarrow> Inr []
       | Some s \<Rightarrow>
           let urls = set_order env (split_fields s) in
           if urls = [] then Inr []
           else case intro_loop urls ([], []) of
             (mongo_links, versions) \<Rightarrow>
               if mongo_links = [] then Inr []
               else bind_err (display_version version) (\<lambda>dv.
                 Inr (intro_text dv (now_long env) (sort mongo_links) versions)))"

text \<open>\<^verbatim>\<open>url.split('/')[-1]\<close>\<close>

definition last_segment :: "string \<Rightarrow> string" where
  "last_segment url = rev (takeWhile (\<lambda>c. c \<noteq> CHR ''/'') (rev url))"

text \<open>The loop of \<^verbatim>\<open>process_upstream_bugs\<close> over the bug URLs.  A page that cannot be
  fetched, or lacks one of the two elements, is skipped.\<close>

fun scrape_loop :: "env \<Rightarrow> jval \<Rightarrow> string list \<Rightarrow> string list \<Rightarrow> string list io" where
  "scrape_loop env gemini_token [] summarized_bugs = (Inr summarized_bugs, [])"
| "scrape_loop env gemini_token (url # urls) summarized_bugs =
     bind_io (Inr (), [ScrapeGet url]) (\<lambda>_.
       case scrape_get env url of
         Page (Some title) (Some description) \<Rightarrow>
           bind_io (get_summary_from_ai env (JStr title) description gemini_token True) (\<lambda>summary.
             scrape_loop env gemini_token urls
               (summarized_bugs @
                [''* ['' @ last_segment url @ '']('' @ url @ '') - '' @ py_str env summary]))
       | _ \<Rightarrow> scrape_loop env gemini_token urls summarized_bugs)"

text \<open>The link to one upstream release note: the version found in the URL, or the
  word \<^verbatim>\<open>version\<close>.\<close>

definition release_link :: "string \<Rightarrow> string" where
  "release_link r_url =
     ''* [MongoDB '' @ (case re_search r_url of Some v \<Rightarrow> v | None \<Rightarrow> ''version'')
     @ '' Community Edition]('' @ r_url @ '')''"

definition upstream_header :: "string list" where
  "upstream_header =
     [''### Upstream Improvements'',
      ''The bug fixes, provided by MongoDB Community Edition and included in Percona Server for MongoDB, are the following:'']"

definition release_notes_lead :: string where
  "release_notes_lead =
     NL @ ''Find the full list of changes in the following MongoDB Community Edition release notes:''"

text \<open>The tail of \<^verbatim>\<open>process_upstream_bugs\<close>, after the bugs were summarized;
  \<^verbatim>\<open>re.split\<close> raises on a value that is not a string.\<close>

definition upstream_text :: "env \<Rightarrow> string list \<Rightarrow> jval \<Rightarrow> py_error + string" where
  "upstream_text env summarized_bugs release_urls_raw =
     (let md_lines = upstream_header @ summarized_bugs in
      case release_urls_raw of
        JStr rs \<Rightarrow>
          let release_urls = set_order env (split_fields rs) in
          Inr (join NL
            (if release_urls \<noteq> []
             then md_lines @ [release_notes_lead] @ map release_link (sort release_urls)
             else md_lines))
      | _ \<Rightarrow> Inl TypeError)"

definition process_upstream_bugs :: "env \<Rightarrow> jval \<Rightarrow> jval \<Rightarrow> jval \<Rightarrow> string io" where
  "process_upstream_bugs env bug_urls_raw release_urls_raw gemini_token =
     bind_io (pure_io (nonblank bug_urls_raw)) (\<lambda>r.
       case r of
         None \<Rightarrow> (Inr [], [])
       | Some s \<Rightarrow>
           let bug_urls = set_order env (split_fields s) in
           if bug_urls = [] then (Inr [], [])
           else bind_io (scrape_loop env gemini_token bug_urls []) (\<lambda>summarized_bugs.
             if summarized_bugs = [] then (Inr [], [])
             else pure_io (upstream_text env summarized_bugs release_urls_raw)))"

section \<open>Classification and assembly\<close>

definition ISSUE_TYPE_MAP :: "(string \<times> string) list" where
  "ISSUE_TYPE_MAP =
     [(''Story'', ''features''), (''New Feature'', ''features''),
      (''Improvement'', ''features''), (''Epic'', ''features''),
      (''Bug'', ''fixes''), (''Defect'', ''fixes''),
      (''Task'', ''maintenance''), (''Sub-task'', ''maintenance''),
      (''Chore'', ''maintenance''), (''Technical Debt'', ''maintenance'')]"

text \<open>The three section titles start with an emoji, written here as its UTF-8 bytes
  (U+2728, U+1F41B, U+1F527).\<close>

definition section_map :: "(string \<times> string) list" where
  "section_map =
     [(''features'', ''## '' @ [CHR 0xE2, CHR 0x9C, CHR 0xA8] @ '' New Features & Enhancements''),
      (''fixes'', ''## '' @ [CHR 0xF0, CHR 0x9F, CHR 0x90, CHR 0x9B] @ '' Bug Fixes''),
      (''maintenance'', ''## '' @ [CHR 0xF0, CHR 0x9F, CHR 0x94, CHR 0xA7] @ '' Technical & Maintenance'')]"

text \<open>\<^verbatim>\<open>ticket.get("fields", {}).get("issuetype", {}).get("name", "Task")\<close>\<close>

definition issue_type_of :: "jval \<Rightarrow> py_error + jval" where
  "issue_type_of ticket =
     bind_err (py_get ticket ''fields'' (JDict [])) (\<lambda>fields.
     bind_err (py_get fields ''issuetype'' (JDict [])) (\<lambda>issuetype.
     py_get issuetype ''name'' (JStr ''Task'')))"

text \<open>\<^verbatim>\<open>ISSUE_TYPE_MAP.get(issue_type, "maintenance")\<close>: a list or a dictionary cannot be
  hashed; any other value that is not a key of the table gets the default.\<close>

fun category_of :: "jval \<Rightarrow> py_error + string" where
  "category_of (JStr s) = Inr (case map_of ISSUE_TYPE_MAP s of None \<Rightarrow> ''maintenance'' | Some c \<Rightarrow> c)"
| "category_of (JList xs) = Inl TypeError"
| "category_of (JDict kvs) = Inl TypeError"
| "category_of _ = Inr ''maintenance''"

text \<open>\<^verbatim>\<open>categories = {"features": [], "fixes": [], "maintenance": []}\<close>\<close>

definition initial_categories :: "(string \<times> jval list) list" where
  "initial_categories = [(''features'', []), (''fixes'', []), (''maintenance'', [])]"

text \<open>The category of one ticket, as the loop computes it.\<close>

definition ticket_category :: "jval \<Rightarrow> py_error + string" where
  "ticket_category ticket = bind_err (issue_type_of ticket) category_of"

text \<open>The loop \<^verbatim>\<open>for ticket in tickets\<close>; \<open>categories\<close> is the dictionary of the three
  lists.\<close>

fun categorize :: "jval list \<Rightarrow> (string \<times> jval list) list \<Rightarrow> py_error + (string \<times> jval list) list" where
  "categorize [] categories = Inr categories"
| "categorize (ticket # tickets) categories =
     bind_err (ticket_category ticket) (\<lambda>category.
       case map_of categories category of
         None \<Rightarrow> Inl KeyError
       | Some bucket \<Rightarrow>
           categorize tickets (AList.update category (bucket @ [ticket]) categories))"

text \<open>One rendered ticket: \<^verbatim>\<open>ticket['key']\<close> and \<^verbatim>\<open>ticket['releaseNoteSummary']\<close> raise
  when the entry is missing.\<close>

definition ticket_line :: "env \<Rightarrow> jval \<Rightarrow> jval \<Rightarrow> py_error + string" where
  "ticket_line env domain ticket =
     bind_err (py_getitem ticket ''key'') (\<lambda>key.
     bind_err (py_getitem ticket ''releaseNoteSummary'') (\<lambda>summary.
       Inr (''- ['' @ py_str env key @ ''](https://'' @ py_str env domain @ ''/browse/''
            @ py_str env key @ ''): '' @ py_str env summary)))"

fun ticket_lines :: "env \<Rightarrow> jval \<Rightarrow> jval list \<Rightarrow> py_error + string list" where
  "ticket_lines env domain [] = Inr []"
| "ticket_lines env domain (ticket # tickets) =
     bind_err (ticket_line env domain ticket) (\<lambda>l.
     bind_err (ticket_lines env domain tickets) (\<lambda>ls. Inr (l # ls)))"

text \<open>The loop \<^verbatim>\<open>for category, title in section_map.items()\<close>, appending to
  \<^verbatim>\<open>md_lines\<close>.\<close>

fun emit_sections ::
  "env \<Rightarrow> jval \<Rightarrow> (string \<times> jval list) list \<Rightarrow> (string \<times> string) list \<Rightarrow> string list
   \<Rightarrow> py_error + string list" where
  "emit_sections env domain categories [] md_lines = Inr md_lines"
| "emit_sections env domain categories ((category, title) # rest) md_lines =
     (case map_of categories category of
        None \<Rightarrow> Inl KeyError
      | Some bucket \<Rightarrow>
          if bucket \<noteq> []
          then bind_err (ticket_lines env domain bucket) (\<lambda>ls.
                 emit_sections env domain categories rest (md_lines @ [title] @ ls @ [[]]))
          else emit_sections env domain categories rest md_lines)"

definition title_line :: "env \<Rightarrow> jval \<Rightarrow> jval \<Rightarrow> string" where
  "title_line env version codename =
     (let t = (if truthy version then ''# Release '' @ py_str env version else ''# Release Notes'')
      in if truthy codename then t @ '' - '' @ DQ @ py_str env codename @ DQ else t)"

definition date_line :: "env \<Rightarrow> string" where
  "date_line env = ''*Released on: '' @ now_iso env @ ''*''"

definition separator :: string where
  "separator = NL @ ''---''"

text \<open>The list \<^verbatim>\<open>md_lines\<close> of \<^verbatim>\<open>generate_final_markdown\<close>, before it is joined.\<close>

definition markdown_lines ::
  "env \<Rightarrow> string \<Rightarrow> jval \<Rightarrow> string \<Rightarrow> jval list \<Rightarrow> jval \<Rightarrow> jval \<Rightarrow> jval \<Rightarrow> py_error + string list" where
  "markdown_lines env mongo_intro release_highlights upstream_section tickets version codename domain =
     (let md0 = [];
          md1 = (if mongo_intro \<noteq> [] then md0 @ [mongo_intro, separator] else md0)
      in bind_err (nonblank release_highlights) (\<lambda>h.
        let md2 = (case h of
                     Some highlights \<Rightarrow>
                       md1 @ [''## Release Highlights'',
                              NL @ ''This release provides the following features and improvements:'' @ NL,
                              highlights, separator]
                   | None \<Rightarrow> md1);
            md3 = (if upstream_section \<noteq> [] then md2 @ [upstream_section, separator] else md2);
            md4 = md3 @ [title_line env version codename, date_line env, ''---'']
        in bind_err (categorize tickets initial_categories)
             (\<lambda>categories. emit_sections env domain categories section_map md4)))"

definition generate_final_markdown ::
  "env \<Rightarrow> string \<Rightarrow> jval \<Rightarrow> string \<Rightarrow> jval list \<Rightarrow> jval \<Rightarrow> jval \<Rightarrow> jval \<Rightarrow> py_error + string" where
  "generate_final_markdown env mongo_intro release_highlights upstream_section tickets version codename domain =
     bind_err (markdown_lines env mongo_intro release_highlights upstream_section tickets version codename domain)
       (\<lambda>md_lines. Inr (join NL md_lines))"

section \<open>The document store\<close>

text \<open>
  The store has two collections.  \<^verbatim>\<open>db.settings\<close> holds at most one document, the one
  with \<^verbatim>\<open>_id\<close> \<^verbatim>\<open>'global_settings'\<close> (the handlers never name another); \<^verbatim>\<open>db.releases\<close>
  maps an identifier to a document.  A document is kept as the list of its fields other
  than \<^verbatim>\<open>_id\<close>, and \<^verbatim>\<open>find_one\<close> gives the \<^verbatim>\<open>_id\<close> back.

  \<^verbatim>\<open>ObjectId(release_id)\<close> accepts 24 hexadecimal digits and raises \<^verbatim>\<open>InvalidId\<close> on any
  other string; an identifier is kept in lower case, as \<^verbatim>\<open>str\<close> prints it.
\<close>

type_synonym oid = string

type_synonym fields = "(string \<times> jval) list"

record db =
  db_settings :: "fields option"
  db_releases :: "oid \<Rightarrow> fields option"

type_synonym response = "nat \<times> jval"

definition is_hex :: "char \<Rightarrow> bool" where
  "is_hex c = (let n = (of_char c :: nat) in
     (48 \<le> n \<and> n \<le> 57) \<or> (65 \<le> n \<and> n \<le> 70) \<or> (97 \<le> n \<and> n \<le> 102))"

definition lower_char :: "char \<Rightarrow> char" where
  "lower_char c = (let n = (of_char c :: nat) in if 65 \<le> n \<and> n \<le> 90 then char_of (n + 32) else c)"

definition ObjectId :: "string \<Rightarrow> py_error + oid" where
  "ObjectId s = (if length s = 24 \<and> list_all is_hex s then Inr (map lower_char s) else Inl InvalidId)"

text \<open>
  \<^verbatim>\<open>update_one(filter, {'$set': data}, upsert)\<close>.  The operator \<^verbatim>\<open>$set\<close> writes each field of
  \<open>data\<close> into the matched document and leaves every other field of the document as it
  is.  Writing an \<^verbatim>\<open>_id\<close> that differs from the document's own is refused by the store.
  With no matching document nothing is written, unless \<open>upsert\<close> asks for a new document,
  which starts from the filter's \<^verbatim>\<open>_id\<close>.  Field names that the store reads as paths or
  operators (a dot inside, a leading dollar, the empty name) are not interpreted, and
  neither is an empty \<open>data\<close>, which the store accepts or refuses depending on its version.
\<close>

definition plain_field :: "string \<Rightarrow> bool" where
  "plain_field k = (k \<noteq> [] \<and> hd k \<noteq> CHR ''$'' \<and> CHR ''.'' \<notin> set k)"

fun set_fields :: "(jval \<Rightarrow> bool) \<Rightarrow> fields \<Rightarrow> fields \<Rightarrow> py_error + fields" where
  "set_fields same_id doc [] = Inr doc"
| "set_fields same_id doc ((k, v) # kvs) =
     (if k = ''_id''
      then (if same_id v then set_fields same_id doc kvs else Inl WriteError)
      else set_fields same_id (AList.update k v doc) kvs)"

definition update_one :: "(jval \<Rightarrow> bool) \<Rightarrow> fields option \<Rightarrow> fields \<Rightarrow> bool \<Rightarrow> py_error + fields option" where
  "update_one same_id found data upsert =
     (if data = [] \<or> \<not> list_all plain_field (map fst data) then Inl Unmodelled
      else case found of
             Some doc \<Rightarrow> bind_err (set_fields same_id doc data) (\<lambda>doc'. Inr (Some doc'))
           | None \<Rightarrow>
               if upsert then bind_err (set_fields same_id [] data) (\<lambda>doc'. Inr (Some doc'))
               else Inr None)"

section \<open>The HTTP handlers\<close>

text \<open>A handler takes the store and returns a response (status and JSON body) with the
  new store, or raises.  The body of a request, \<^verbatim>\<open>request.get_json()\<close>, is a JSON object.\<close>

datatype settings_request = SettingsGet | SettingsPost fields

definition settings_id :: jval where
  "settings_id = JStr ''global_settings''"

definition find_settings :: "db \<Rightarrow> fields option" where
  "find_settings db = map_option (\<lambda>doc. (''_id'', settings_id) # doc) (db_settings db)"

fun settings :: "db \<Rightarrow> settings_request \<Rightarrow> py_error + response \<times> db" where
  "settings db (SettingsPost data) =
     bind_err (update_one (\<lambda>v. v = settings_id) (db_settings db) data True) (\<lambda>doc'.
       Inr ((200, JDict [(''message'', JStr ''Settings saved successfully.'')]),
            db\<lparr>db_settings := doc'\<rparr>))"
| "settings db SettingsGet =
     Inr ((200, JDict (case find_settings db of Some settings_data \<Rightarrow> settings_data | None \<Rightarrow> [])), db)"

datatype detail_request = DetailGet | DetailPut fields | DetailDelete

definition release_detail :: "db \<Rightarrow> string \<Rightarrow> detail_request \<Rightarrow> py_error + response \<times> db" where
  "release_detail db release_id req =
     bind_err (ObjectId release_id) (\<lambda>oid.
       case req of
         DetailGet \<Rightarrow>
           (case db_releases db oid of
              Some release \<Rightarrow> Inr ((200, JDict ((''_id'', JStr oid) # release)), db)
            | None \<Rightarrow> Inr ((404, JDict [(''error'', JStr ''Release not found'')]), db))
       | DetailPut data \<Rightarrow>
           bind_err (update_one (\<lambda>v. False) (db_releases db oid) data False) (\<lambda>doc'.
             Inr ((200, JDict [(''message'', JStr ''Release updated successfully.'')]),
                  db\<lparr>db_releases := (db_releases db)(oid := doc')\<rparr>))
       | DetailDelete \<Rightarrow>
           Inr ((200, JDict [(''message'', JStr ''Release deleted successfully.'')]),
                db\<lparr>db_releases := (db_releases db)(oid := None)\<rparr>))"

text \<open>\<^verbatim>\<open>d.get(k, default)\<close> on a document of the store.\<close>

definition doc_get :: "fields \<Rightarrow> string \<Rightarrow> jval \<Rightarrow> jval" where
  "doc_get doc k dflt = (case map_of doc k of None \<Rightarrow> dflt | Some v \<Rightarrow> v)"

text \<open>\<^verbatim>\<open>sorted(list(set(filter(None, re.split(r'[,\s\n]+', release.get('jiraTickets', ''))))))\<close>\<close>

definition ticket_keys :: "jval \<Rightarrow> py_error + string list" where
  "ticket_keys jira_tickets =
     (case jira_tickets of
        JStr s \<Rightarrow> Inr (sorted_list_of_set (set (split_fields s)))
      | _ \<Rightarrow> Inl TypeError)"

text \<open>What the loop over the keys reads from a fetched ticket.\<close>

definition ticket_title :: "jval \<Rightarrow> py_error + jval" where
  "ticket_title ticket_info =
     bind_err (py_get ticket_info ''fields'' (JDict [])) (\<lambda>fields.
     py_get fields ''summary'' (JStr ''No title''))"

definition ticket_description :: "jval \<Rightarrow> py_error + string" where
  "ticket_description ticket_info =
     bind_err (py_get ticket_info ''fields'' (JDict [])) (\<lambda>fields.
     bind_err (py_get fields ''description'' JNull) parse_jira_description)"

text \<open>\<^verbatim>\<open>ticket_info['releaseNoteSummary'] = summary\<close>\<close>

fun set_summary :: "jval \<Rightarrow> jval \<Rightarrow> py_error + jval" where
  "set_summary (JDict kvs) summary = Inr (JDict (AList.update ''releaseNoteSummary'' summary kvs))"
| "set_summary _ summary = Inl TypeError"

text \<open>The loop \<^verbatim>\<open>for key in ticket_keys\<close> of \<^verbatim>\<open>generate_release_notes\<close>.\<close>

fun ticket_loop ::
  "env \<Rightarrow> jval \<Rightarrow> jval \<Rightarrow> jval \<Rightarrow> jval \<Rightarrow> string list \<Rightarrow> jval list \<Rightarrow> jval list io" where
  "ticket_loop env domain email token gemini_token [] tickets = (Inr tickets, [])"
| "ticket_loop env domain email token gemini_token (key # keys) tickets =
     (case fetch_jira_ticket env domain email token (upper key) of
        (ticket_info, sent) \<Rightarrow>
          bind_io (Inr (), sent) (\<lambda>_.
            if truthy ticket_info
            then bind_io (pure_io (ticket_title ticket_info)) (\<lambda>title.
                 bind_io (pure_io (ticket_description ticket_info)) (\<lambda>description_text.
                 bind_io (get_summary_from_ai env title description_text gemini_token False) (\<lambda>summary.
                 bind_io (pure_io (set_summary ticket_info summary)) (\<lambda>ticket.
                 ticket_loop env domain email token gemini_token keys (tickets @ [ticket])))))
            else ticket_loop env domain email token gemini_token keys tickets))"

definition not_found :: response where
  "not_found = (404, JDict [(''error'', JStr ''Release not found'')])"

definition settings_incomplete :: response where
  "settings_incomplete =
     (400, JDict [(''error'', JStr ''JIRA settings are incomplete. Please configure them on the Settings page.'')])"

definition nothing_fetched :: response where
  "nothing_fetched = (400, JDict [(''error'', JStr ''Could not fetch data for any JIRA tickets.'')])"

text \<open>
  \<^verbatim>\<open>generate_release_notes(release_id)\<close>.  The store is written once, by the last
  \<^verbatim>\<open>update_one\<close>; an exception leaves it as it was.
\<close>

definition generate_release_notes :: "env \<Rightarrow> db \<Rightarrow> string \<Rightarrow> (response \<times> db) io" where
  "generate_release_notes env db release_id =
     (let settings = (case find_settings db of Some doc \<Rightarrow> doc | None \<Rightarrow> []) in
      bind_io (pure_io (ObjectId release_id)) (\<lambda>oid.
        case db_releases db oid of
          None \<Rightarrow> (Inr (not_found, db), [])
        | Some release \<Rightarrow>
            let domain = doc_get settings ''jiraUrl'' JNull;
                email = doc_get settings ''jiraEmail'' JNull;
                token = doc_get settings ''jiraToken'' JNull;
                gemini_token = doc_get settings ''geminiToken'' JNull
            in if \<not> (truthy domain \<and> truthy email \<and> truthy token)
               then (Inr (settings_incomplete, db), [])
               else
                 bind_io (pure_io (generate_mongo_intro env (doc_get release ''upstreamUrls'' (JStr []))
                                     (doc_get release ''version'' (JStr [])))) (\<lambda>mongo_intro.
                 let release_highlights = doc_get release ''releaseHighlights'' (JStr []);
                     upstream_bug_urls = doc_get release ''upstreamBugUrls'' (JStr [])
                 in
                 bind_io (process_upstream_bugs env upstream_bug_urls
                            (doc_get release ''upstreamUrls'' (JStr [])) gemini_token) (\<lambda>upstream_section.
                 bind_io (pure_io (ticket_keys (doc_get release ''jiraTickets'' (JStr [])))) (\<lambda>keys.
                 bind_io (ticket_loop env domain email token gemini_token keys []) (\<lambda>tickets_with_summaries.
                 if tickets_with_summaries = [] \<and> keys \<noteq> []
                 then (Inr (nothing_fetched, db), [])
                 else
                   bind_io (pure_io (generate_final_markdown env mongo_intro release_highlights
                              upstream_section tickets_with_summaries
                              (doc_get release ''version'' JNull) (doc_get release ''codename'' JNull)
                              domain)) (\<lambda>markdown_output.
                   (Inr ((200, JDict [(''markdown'', JStr markdown_output)]),
                         db\<lparr>db_releases := (db_releases db)
                               (oid \<mapsto> AList.update ''generatedMarkdown'' (JStr markdown_output) release)\<rparr>),
                    []))))))))"

section \<open>The words of the specification, and example data\<close>

text \<open>The bucket of an issue type as the specification lists it.\<close>

definition spec_category :: "string \<Rightarrow> string" where
  "spec_category s =
     (if s \<in> {''Story'', ''New Feature'', ''Improvement'', ''Epic''} then ''features''
      else if s \<in> {''Bug'', ''Defect''} then ''fixes''
      else if s \<in> {''Task'', ''Sub-task'', ''Chore'', ''Technical Debt''} then ''maintenance''
      else ''maintenance'')"

text \<open>A rich-text description with nested text nodes and a node without text.\<close>

definition adf_example :: "(string \<times> jval) list" where
  "adf_example =
     [(''type'', JStr ''doc''),
      (''content'', JList
        [JDict [(''type'', JStr ''paragraph''),
                (''content'', JList
                  [JDict [(''type'', JStr ''text''), (''text'', JStr ''Fix'')],
                   JDict [(''type'', JStr ''text''), (''text'', JStr ''the''),
                          (''content'', JList [JDict [(''type'', JStr ''text''), (''text'', JStr ''crash'')]])]])],
         JDict [(''type'', JStr ''rule'')],
         JDict [(''type'', JStr ''paragraph''),
                (''content'', JList [JDict [(''type'', JStr ''text''), (''text'', JStr ''now'')]])]])]"

text \<open>Four fetched tickets, already carrying their summaries: a bug, an issue type the
  table does not list, a story, and a ticket without fields.\<close>

definition ticket_bug :: jval where
  "ticket_bug = JDict [(''key'', JStr ''ABC-1''),
     (''fields'', JDict [(''summary'', JStr ''Fix crash''), (''issuetype'', JDict [(''name'', JStr ''Bug'')])]),
     (''releaseNoteSummary'', JStr ''Fix crash'')]"

definition ticket_spike :: jval where
  "ticket_spike = JDict [(''key'', JStr ''ABC-2''),
     (''fields'', JDict [(''issuetype'', JDict [(''name'', JStr ''Spike'')])]),
     (''releaseNoteSummary'', JStr ''Try the new parser'')]"

definition ticket_story :: jval where
  "ticket_story = JDict [(''key'', JStr ''ABC-3''),
     (''fields'', JDict [(''issuetype'', JDict [(''name'', JStr ''Story'')])]),
     (''releaseNoteSummary'', JStr ''Add backup command'')]"

definition ticket_bare :: jval where
  "ticket_bare = JDict [(''key'', JStr ''ABC-4''), (''releaseNoteSummary'', JStr ''Clean up'')]"

definition tickets_example :: "jval list" where
  "tickets_example = [ticket_bug, ticket_spike, ticket_story, ticket_bare]"






text \<open>An environment in which every remote call fails.\<close>

definition env_example :: env where
  "env_example =
     \<lparr>jira_get = (\<lambda>url email token. RequestException),
      gemini_post = (\<lambda>url prompt. RequestException),
      scrape_get = (\<lambda>url. ScrapeFailed),
      set_order = remdups,
      py_repr = (\<lambda>v. ''None''),
      now_long = ''Jun 01, 2025'',
      now_iso = ''2025-06-01''\<rparr>"






text \<open>A store with saved settings and no release, a settings object posted to it, the
  store after that POST, and the bodies of the success responses.\<close>

definition db_saved :: db where
  "db_saved =
     \<lparr>db_settings = Some [(''jiraUrl'', JStr ''old.example.com''), (''geminiToken'', JStr ''g-123'')],
      db_releases = (\<lambda>oid. None)\<rparr>"

definition post_example :: fields where
  "post_example = [(''jiraUrl'', JStr ''jira.example.com'')]"

definition db_merged :: db where
  "db_merged =
     \<lparr>db_settings = Some [(''jiraUrl'', JStr ''jira.example.com''), (''geminiToken'', JStr ''g-123'')],
      db_releases = (\<lambda>oid. None)\<rparr>"

definition saved :: response where
  "saved = (200, JDict [(''message'', JStr ''Settings saved successfully.'')])"

text \<open>A well-formed release identifier and the body of a PUT.\<close>

definition release_id_example :: string where
  "release_id_example = ''64B7F0C2A1D3E4F5A6B7C8D9''"

definition put_example :: fields where
  "put_example = [(''version'', JStr ''1.2.4''), (''codename'', JStr ''Heron'')]"

definition updated :: response where
  "updated = (200, JDict [(''message'', JStr ''Release updated successfully.'')])"

definition deleted :: response where
  "deleted = (200, JDict [(''message'', JStr ''Release deleted successfully.'')])"

text \<open>What the generate handler reads from the settings, in the names of the source,
  and the conditions of its two 400 responses: the settings are complete when the three
  required values are truthy, and no ticket data was fetched when every fetch gave a
  falsy answer.  \<open>with_markdown\<close> is the store after the handler's final \<^verbatim>\<open>update_one\<close>.\<close>

definition settings_of :: "db \<Rightarrow> fields" where
  "settings_of db = (case find_settings db of Some doc \<Rightarrow> doc | None \<Rightarrow> [])"

definition jira_domain :: "db \<Rightarrow> jval" where
  "jira_domain db = doc_get (settings_of db) ''jiraUrl'' JNull"

definition jira_email :: "db \<Rightarrow> jval" where
  "jira_email db = doc_get (settings_of db) ''jiraEmail'' JNull"

definition jira_token :: "db \<Rightarrow> jval" where
  "jira_token db = doc_get (settings_of db) ''jiraToken'' JNull"

definition gemini_token_of :: "db \<Rightarrow> jval" where
  "gemini_token_of db = doc_get (settings_of db) ''geminiToken'' JNull"

definition settings_complete :: "db \<Rightarrow> bool" where
  "settings_complete db = (truthy (jira_domain db) \<and> truthy (jira_email db) \<and> truthy (jira_token db))"



definition with_markdown :: "db \<Rightarrow> oid \<Rightarrow> fields \<Rightarrow> string \<Rightarrow> db" where
  "with_markdown db oid release md =
     db\<lparr>db_releases := (db_releases db)(oid \<mapsto> AList.update ''generatedMarkdown'' (JStr md) release)\<rparr>"

text \<open>A store with complete settings and one release whose ticket field is
  \<^verbatim>\<open>"ABC-2, abc-1,,ABC-2"\<close>; the same store without settings; an issue tracker that
  answers every request with a ticket that has no \<^verbatim>\<open>key\<close>; and one that answers with a
  ticket named after the last segment of the URL.\<close>

definition oid_example :: oid where
  "oid_example = ''64b7f0c2a1d3e4f5a6b7c8d9''"

definition release_example :: fields where
  "release_example = [(''version'', JStr ''1.2.3''), (''jiraTickets'', JStr ''ABC-2, abc-1,,ABC-2'')]"

definition releases_example :: "oid \<Rightarrow> fields option" where
  "releases_example oid = (if oid = oid_example then Some release_example else None)"

definition jira_settings :: fields where
  "jira_settings =
     [(''jiraUrl'', JStr ''jira.example.com''), (''jiraEmail'', JStr ''notes@example.com''),
      (''jiraToken'', JStr ''s3cret'')]"

definition db_ready :: db where
  "db_ready = \<lparr>db_settings = Some jira_settings, db_releases = releases_example\<rparr>"




definition env_jira :: env where
  "env_jira = env_example\<lparr>jira_get := (\<lambda>url email token.
     Json (JDict [(''key'', JStr (last_segment url)),
                  (''fields'', JDict [(''summary'', JStr ''Fix crash''),
                                      (''issuetype'', JDict [(''name'', JStr ''Bug'')])])]))\<rparr>"

text \<open>The requests sent for the example release, the markdown generated for it when
  the tracker answers, and the tickets after the loop has added their summaries.\<close>

definition jira_calls :: "call list" where
  "jira_calls =
     [JiraGet ''https://jira.example.com/rest/api/3/issue/ABC-2'' (JStr ''notes@example.com'') (JStr ''s3cret''),
      JiraGet ''https://jira.example.com/rest/api/3/issue/ABC-1'' (JStr ''notes@example.com'') (JStr ''s3cret'')]"

definition markdown_example :: string where
  "markdown_example =
     join NL
       [''# Release 1.2.3'', ''*Released on: 2025-06-01*'', ''---'',
        ''## '' @ [CHR 0xF0, CHR 0x9F, CHR 0x90, CHR 0x9B] @ '' Bug Fixes'',
        ''- [ABC-2](https://jira.example.com/browse/ABC-2): Fix crash'',
        ''- [ABC-1](https://jira.example.com/browse/ABC-1): Fix crash'',
        []]"

definition summarized :: "string \<Rightarrow> jval" where
  "summarized key =
     JDict [(''key'', JStr key),
            (''fields'', JDict [(''summary'', JStr ''Fix crash''),
                                (''issuetype'', JDict [(''name'', JStr ''Bug'')])]),
            (''releaseNoteSummary'', JStr ''Fix crash'')]"


section \<open>Auxiliary facts\<close>


section \<open>The text extractor: properties\<close>

lemma preorder_all_Cons: "preorder_all (n # ns) = n # preorder_all (children n) @ preorder_all ns"
  by (simp add: preorder_all_def)

lemma preorder_all_Nil: "preorder_all [] = []"
  by (simp add: preorder_all_def)

lemma map_filter_append: "List.map_filter f (xs @ ys) = List.map_filter f xs @ List.map_filter f ys"
  by (simp add: List.map_filter_def)

lemma map_filter_Cons: "List.map_filter f (x # xs) = (case f x of None \<Rightarrow> List.map_filter f xs | Some y \<Rightarrow> y # List.map_filter f xs)"
  by (simp add: List.map_filter_def split: option.splits)

lemma recurse_preorder:
  "list_all is_node (preorder_all nodes) \<Longrightarrow>
   recurse nodes acc = Inr (acc @ List.map_filter node_text (preorder_all nodes))"
proof (induction nodes acc rule: recurse.induct)
  case (1 acc)
  then show ?case by (simp add: preorder_all_Nil List.map_filter_def)
next
  case (2 node nodes acc)
  from "2.prems" obtain d where d: "node = JDict d"
    by (cases node) (auto simp: preorder_all_Cons)
  define acc1 where "acc1 = (case text_of d of Some t \<Rightarrow> acc @ [t] | None \<Rightarrow> acc)"
  have acc1: "acc1 = acc @ List.map_filter node_text [node]"
    by (simp add: acc1_def d map_filter_Cons List.map_filter_def split: option.splits)
  from "2.prems" have rest: "list_all is_node (preorder_all nodes)"
    and kids: "list_all is_node (preorder_all (children node))"
    by (simp_all add: preorder_all_Cons)
  show ?case
  proof (cases "content_list d")
    case None
    then have "children node = []" using d by simp
    moreover have "recurse nodes acc1 = Inr (acc1 @ List.map_filter node_text (preorder_all nodes))"
      using "2.IH"(1) [OF d acc1_def None rest] .
    ultimately show ?thesis
      using d None acc1 by (simp add: preorder_all_Cons preorder_all_Nil map_filter_Cons acc1_def [symmetric] split: option.splits)
  next
    case (Some cs)
    then have ch: "children node = cs" using d by simp
    have 1: "recurse cs acc1 = Inr (acc1 @ List.map_filter node_text (preorder_all cs))"
      using "2.IH"(2) [OF d acc1_def Some] kids ch by simp
    have 2: "recurse nodes (acc1 @ List.map_filter node_text (preorder_all cs)) =
       Inr ((acc1 @ List.map_filter node_text (preorder_all cs)) @ List.map_filter node_text (preorder_all nodes))"
      using "2.IH"(3) [OF d acc1_def Some rest] .
    show ?thesis
      using d Some 1 2 ch acc1
      by (simp add: preorder_all_Cons map_filter_append map_filter_Cons acc1_def [symmetric] split: option.splits)
  qed
qed


lemma join_jvals_strs:
  "list_all (\<lambda>v. case v of JStr s \<Rightarrow> True | _ \<Rightarrow> False) vs \<Longrightarrow>
   join_jvals sep vs out = Inr (join sep (out @ map the_str vs))"
proof (induction vs arbitrary: out)
  case Nil
  then show ?case by simp
next
  case (Cons v vs)
  then show ?case by (cases v) simp_all
qed

lemma node_texts_strs:
  "list_all is_node ns \<Longrightarrow>
   list_all (\<lambda>v. case v of JStr s \<Rightarrow> True | _ \<Rightarrow> False) (List.map_filter node_text ns)"
proof (induction ns)
  case Nil
  then show ?case by (simp add: List.map_filter_def)
next
  case (Cons n ns)
  then show ?case
    by (cases n) (auto simp: map_filter_Cons split: option.splits jval.splits)
qed

text \<open>
  C6.  For a document tree (every node a dictionary, every text node carrying a string)
  the extractor returns the strings of the nodes tagged "text", in depth-first pre-order,
  joined by single spaces.  An empty node list, a description without \<^verbatim>\<open>"content"\<close> and a
  description that is not a dictionary (in particular \<^verbatim>\<open>None\<close>) give the empty string.
\<close>

theorem parse_jira_description_preorder:
  "(map_of d ''content'' = Some (JList nodes) \<and> document_tree nodes \<longrightarrow>
      parse_jira_description (JDict d) = Inr (join '' '' (leaf_texts nodes)))
   \<and> (map_of d ''content'' = Some (JList []) \<longrightarrow> parse_jira_description (JDict d) = Inr [])
   \<and> (map_of d ''content'' = None \<longrightarrow> parse_jira_description (JDict d) = Inr [])
   \<and> ((case v of JDict kvs \<Rightarrow> False | _ \<Rightarrow> True) \<longrightarrow> parse_jira_description v = Inr [])"
proof (intro conjI impI)
  assume a: "map_of d ''content'' = Some (JList nodes) \<and> document_tree nodes"
  then have wf: "list_all is_node (preorder_all nodes)"
    by (simp add: document_tree_def)
  have "recurse nodes [] = Inr (List.map_filter node_text (preorder_all nodes))"
    using recurse_preorder [OF wf, of "[]"] by simp
  moreover have "join_jvals '' '' (List.map_filter node_text (preorder_all nodes)) [] =
      Inr (join '' '' (leaf_texts nodes))"
    using join_jvals_strs [OF node_texts_strs [OF wf], of "'' ''" "[]"]
    by (simp add: leaf_texts_def)
  ultimately show "parse_jira_description (JDict d) = Inr (join '' '' (leaf_texts nodes))"
    using a by simp
next
  assume "map_of d ''content'' = Some (JList [])"
  then show "parse_jira_description (JDict d) = Inr []" by simp
next
  assume "map_of d ''content'' = None"
  then show "parse_jira_description (JDict d) = Inr []" by simp
next
  assume "case v of JDict kvs \<Rightarrow> False | _ \<Rightarrow> True"
  then show "parse_jira_description v = Inr []" by (cases v) simp_all
qed

text \<open>The theorem at a document with nested text nodes and a node without text.\<close>

theorem parse_jira_description_preorder_witness:
  "document_tree (case map_of adf_example ''content'' of Some (JList ns) \<Rightarrow> ns | _ \<Rightarrow> [])
   \<and> parse_jira_description (JDict adf_example) = Inr ''Fix the crash now''"
proof -
  let ?ns = "case map_of adf_example ''content'' of Some (JList ns) \<Rightarrow> ns | _ \<Rightarrow> []"
  have c: "map_of adf_example ''content'' = Some (JList ?ns)"
    by (simp add: adf_example_def)
  have wf: "document_tree ?ns"
    by (simp add: adf_example_def document_tree_def preorder_all_def content_list_def text_of_def)
  have lt: "join '' '' (leaf_texts ?ns) = ''Fix the crash now''"
    by (simp add: adf_example_def leaf_texts_def preorder_all_def content_list_def text_of_def List.map_filter_def)
  from parse_jira_description_preorder [of adf_example ?ns JNull] c wf lt
  show ?thesis by simp
qed

section \<open>Classification\<close>

lemma category_of_str: "category_of (JStr s) = Inr (spec_category s)"
  by (simp add: ISSUE_TYPE_MAP_def spec_category_def)

lemma categorize_buckets:
  "categorize tickets categories = Inr categories' \<Longrightarrow>
   map_of categories' c =
     map_option (\<lambda>bucket. bucket @ filter (\<lambda>t. ticket_category t = Inr c) tickets) (map_of categories c)"
proof (induction tickets arbitrary: categories)
  case Nil
  then show ?case by (simp add: option.map_ident)
next
  case (Cons t ts)
  from Cons.prems obtain cat where cat: "ticket_category t = Inr cat"
    by (cases "ticket_category t") auto
  with Cons.prems obtain bucket where bucket: "map_of categories cat = Some bucket"
    by (cases "map_of categories cat") auto
  let ?cs = "AList.update cat (bucket @ [t]) categories"
  from Cons.prems cat bucket have "categorize ts ?cs = Inr categories'" by simp
  from Cons.IH [OF this]
  have "map_of categories' c =
      map_option (\<lambda>b. b @ filter (\<lambda>t. ticket_category t = Inr c) ts) (map_of ?cs c)" .
  then show ?case
    using cat bucket by (cases "c = cat") (auto simp: update_conv')
qed

text \<open>
  C7.  A ticket whose issue type is the string \<open>s\<close> is classified as the specification's
  table says: Story, New Feature, Improvement and Epic are features, Bug and Defect are
  fixes, Task, Sub-task, Chore and Technical Debt are maintenance, and every other string
  is maintenance.  After the loop over the tickets each of the three buckets holds, in
  input order, exactly the tickets of its category.
\<close>

theorem classification:
  "category_of (JStr s) = Inr (spec_category s)
   \<and> (issue_type_of ticket = Inr (JStr s) \<longrightarrow> ticket_category ticket = Inr (spec_category s))
   \<and> (categorize tickets initial_categories = Inr categories \<longrightarrow>
        map_of categories ''features'' = Some (filter (\<lambda>t. ticket_category t = Inr ''features'') tickets)
      \<and> map_of categories ''fixes'' = Some (filter (\<lambda>t. ticket_category t = Inr ''fixes'') tickets)
      \<and> map_of categories ''maintenance'' = Some (filter (\<lambda>t. ticket_category t = Inr ''maintenance'') tickets))"
proof (intro conjI impI)
  show "category_of (JStr s) = Inr (spec_category s)" by (rule category_of_str)
next
  assume "issue_type_of ticket = Inr (JStr s)"
  then show "ticket_category ticket = Inr (spec_category s)"
    by (simp add: ticket_category_def category_of_str del: category_of.simps)
next
  assume a: "categorize tickets initial_categories = Inr categories"
  show "map_of categories ''features'' = Some (filter (\<lambda>t. ticket_category t = Inr ''features'') tickets)"
    using categorize_buckets [OF a, of "''features''"] by (simp add: initial_categories_def)
  show "map_of categories ''fixes'' = Some (filter (\<lambda>t. ticket_category t = Inr ''fixes'') tickets)"
    using categorize_buckets [OF a, of "''fixes''"] by (simp add: initial_categories_def)
  show "map_of categories ''maintenance'' = Some (filter (\<lambda>t. ticket_category t = Inr ''maintenance'') tickets)"
    using categorize_buckets [OF a, of "''maintenance''"] by (simp add: initial_categories_def)
qed

lemma issue_types_example:
  "issue_type_of ticket_bug = Inr (JStr ''Bug'')"
  "issue_type_of ticket_spike = Inr (JStr ''Spike'')"
  "issue_type_of ticket_story = Inr (JStr ''Story'')"
  "issue_type_of ticket_bare = Inr (JStr ''Task'')"
  by (simp_all add: ticket_bug_def ticket_spike_def ticket_story_def ticket_bare_def issue_type_of_def)

text \<open>The theorem at the four example tickets: "Bug" lands in fixes, "Spike" and the
  default "Task" in maintenance, "Story" in features.\<close>

theorem classification_witness:
  "issue_type_of ticket_spike = Inr (JStr ''Spike'')
   \<and> ticket_category ticket_bug = Inr ''fixes''
   \<and> ticket_category ticket_spike = Inr ''maintenance''
   \<and> (\<exists>categories. categorize tickets_example initial_categories = Inr categories
        \<and> map_of categories ''features'' = Some [ticket_story]
        \<and> map_of categories ''fixes'' = Some [ticket_bug]
        \<and> map_of categories ''maintenance'' = Some [ticket_spike, ticket_bare])"
proof -
  note it = issue_types_example
  have tc: "ticket_category ticket_bug = Inr ''fixes''"
    "ticket_category ticket_spike = Inr ''maintenance''"
    "ticket_category ticket_story = Inr ''features''"
    "ticket_category ticket_bare = Inr ''maintenance''"
    using classification [of "''Bug''" ticket_bug "[]" "[]"]
      classification [of "''Spike''" ticket_spike "[]" "[]"]
      classification [of "''Story''" ticket_story "[]" "[]"]
      classification [of "''Task''" ticket_bare "[]" "[]"] it
    by (simp_all add: spec_category_def)
  have "\<exists>categories. categorize tickets_example initial_categories = Inr categories"
    by (simp add: tickets_example_def tc initial_categories_def)
  then obtain categories where c: "categorize tickets_example initial_categories = Inr categories" ..
  have f: "filter (\<lambda>t. ticket_category t = Inr ''features'') tickets_example = [ticket_story]"
    "filter (\<lambda>t. ticket_category t = Inr ''fixes'') tickets_example = [ticket_bug]"
    "filter (\<lambda>t. ticket_category t = Inr ''maintenance'') tickets_example = [ticket_spike, ticket_bare]"
    by (simp_all add: tickets_example_def tc)
  have b: "map_of categories ''features'' = Some (filter (\<lambda>t. ticket_category t = Inr ''features'') tickets_example)
      \<and> map_of categories ''fixes'' = Some (filter (\<lambda>t. ticket_category t = Inr ''fixes'') tickets_example)
      \<and> map_of categories ''maintenance'' = Some (filter (\<lambda>t. ticket_category t = Inr ''maintenance'') tickets_example)"
    using classification [of "''Bug''" ticket_bug tickets_example categories] c by blast
  have "\<exists>categories. categorize tickets_example initial_categories = Inr categories
        \<and> map_of categories ''features'' = Some [ticket_story]
        \<and> map_of categories ''fixes'' = Some [ticket_bug]
        \<and> map_of categories ''maintenance'' = Some [ticket_spike, ticket_bare]"
    using b c unfolding f by blast
  with it(2) tc(1,2) show ?thesis by blast
qed

section \<open>Assembly\<close>












section \<open>The summarizer\<close>

text \<open>The emptiness of the extracted text is tested before it is trimmed: a text of
  whitespace only is not empty, and the summary returned for it is the empty string.\<close>

lemma summary_of_whitespace: "summary_or_title (JStr ''  '') title = Inr (JStr [])"
  by (simp add: summary_or_title_def strip_def isspace_def)




section \<open>Version extraction: properties\<close>




















section \<open>Settings\<close>

text \<open>
  C2, as stated, fails: the POST writes with \<^verbatim>\<open>$set\<close>, which leaves the fields it does
  not name in place.  After saving a URL and a token, a POST of the URL alone is followed
  by a GET that still returns the token (and the document's \<^verbatim>\<open>_id\<close>).
\<close>

theorem settings_overwrite_counterexample:
  "settings db_saved (SettingsPost post_example) = Inr (saved, db_merged)
   \<and> settings db_merged SettingsGet =
       Inr ((200, JDict [(''_id'', JStr ''global_settings''),
                        (''jiraUrl'', JStr ''jira.example.com''),
                        (''geminiToken'', JStr ''g-123'')]), db_merged)
   \<and> map_of post_example ''geminiToken'' = None"
  by (simp add: db_saved_def db_merged_def post_example_def saved_def update_one_def plain_field_def
      find_settings_def settings_id_def)

lemma set_fields_merge:
  "''_id'' \<notin> fst ` set data \<Longrightarrow>
   \<exists>doc'. set_fields same_id doc data = Inr doc' \<and> map_of doc' = map_of doc ++ map_of (rev data)"
proof (induction data arbitrary: doc)
  case Nil
  then show ?case by simp
next
  case (Cons kv kvs)
  obtain k v where kv: "kv = (k, v)" by (cases kv)
  with Cons.prems have k: "k \<noteq> ''_id''" and rest: "''_id'' \<notin> fst ` set kvs" by auto
  from Cons.IH [OF rest, of "AList.update k v doc"] obtain doc' where
    d: "set_fields same_id (AList.update k v doc) kvs = Inr doc'"
    and m: "map_of doc' = map_of (AList.update k v doc) ++ map_of (rev kvs)" by blast
  have "map_of doc' = map_of doc ++ map_of (rev (kv # kvs))"
    unfolding m kv by (simp add: update_conv' map_add_upd_left fun_eq_iff map_add_def split: option.splits)
  with d k kv show ?case by simp
qed

lemma map_of_rev_distinct: "distinct (map fst xs) \<Longrightarrow> map_of (rev xs) = map_of xs"
proof (induction xs)
  case Nil
  then show ?case by simp
next
  case (Cons kv xs)
  then have "map_of xs (fst kv) = None"
    by (simp add: map_of_eq_None_iff)
  with Cons show ?case
    by (cases kv) (auto simp: fun_eq_iff map_add_def split: option.splits)
qed

text \<open>
  C2, amended.  A POST of a JSON object (non-empty, with ordinary field names, none of
  them \<^verbatim>\<open>_id\<close>) merges the posted fields into the stored settings: the GET that follows
  returns the \<^verbatim>\<open>_id\<close>, every posted key with its posted value, and every other key
  with the value it had before the POST.
\<close>

theorem settings_merge:
  "data \<noteq> [] \<and> list_all plain_field (map fst data) \<and> ''_id'' \<notin> fst ` set data
     \<and> distinct (map fst data) \<longrightarrow>
   (\<exists>db' body.
      settings db (SettingsPost data) = Inr (saved, db')
      \<and> settings db' SettingsGet = Inr ((200, JDict body), db')
      \<and> map_of body ''_id'' = Some settings_id
      \<and> (\<forall>k v. map_of data k = Some v \<longrightarrow> map_of body k = Some v)
      \<and> (\<forall>k. k \<noteq> ''_id'' \<and> map_of data k = None \<longrightarrow>
            map_of body k = map_of (case db_settings db of Some old \<Rightarrow> old | None \<Rightarrow> []) k))"
proof
  assume a: "data \<noteq> [] \<and> list_all plain_field (map fst data) \<and> ''_id'' \<notin> fst ` set data
     \<and> distinct (map fst data)"
  let ?old = "case db_settings db of Some old \<Rightarrow> old | None \<Rightarrow> []"
  from a set_fields_merge [of data "\<lambda>v. v = settings_id" ?old] obtain doc' where
    d: "set_fields (\<lambda>v. v = settings_id) ?old data = Inr doc'"
    and m: "map_of doc' = map_of ?old ++ map_of (rev data)" by blast
  from a have r: "map_of (rev data) = map_of data"
    by (simp add: map_of_rev_distinct)
  let ?db = "db\<lparr>db_settings := Some doc'\<rparr>"
  have post: "settings db (SettingsPost data) = Inr (saved, ?db)"
    using a d by (cases "db_settings db") (simp_all add: update_one_def saved_def)
  have get: "settings ?db SettingsGet = Inr ((200, JDict ((''_id'', settings_id) # doc')), ?db)"
    by (simp add: find_settings_def)
  have 1: "map_of ((''_id'', settings_id) # doc') ''_id'' = Some settings_id" by simp
  have 2: "\<forall>k v. map_of data k = Some v \<longrightarrow> map_of ((''_id'', settings_id) # doc') k = Some v"
  proof (intro allI impI)
    fix k v assume kv: "map_of data k = Some v"
    then have "(k, v) \<in> set data" by (rule map_of_SomeD)
    with a have "k \<noteq> ''_id''" by force
    with kv show "map_of ((''_id'', settings_id) # doc') k = Some v"
      by (simp add: m r map_add_def)
  qed
  have 3: "\<forall>k. k \<noteq> ''_id'' \<and> map_of data k = None \<longrightarrow>
            map_of ((''_id'', settings_id) # doc') k = map_of ?old k"
    by (auto simp: m r map_add_def)
  from post get 1 2 3 show "\<exists>db' body.
      settings db (SettingsPost data) = Inr (saved, db')
      \<and> settings db' SettingsGet = Inr ((200, JDict body), db')
      \<and> map_of body ''_id'' = Some settings_id
      \<and> (\<forall>k v. map_of data k = Some v \<longrightarrow> map_of body k = Some v)
      \<and> (\<forall>k. k \<noteq> ''_id'' \<and> map_of data k = None \<longrightarrow>
            map_of body k = map_of ?old k)"
    by blast
qed


text \<open>The amended statement at the example store and POST.\<close>

theorem settings_merge_witness:
  "post_example \<noteq> [] \<and> list_all plain_field (map fst post_example)
   \<and> ''_id'' \<notin> fst ` set post_example \<and> distinct (map fst post_example)
   \<and> (\<exists>db' body.
      settings db_saved (SettingsPost post_example) = Inr (saved, db')
      \<and> settings db' SettingsGet = Inr ((200, JDict body), db')
      \<and> map_of body ''_id'' = Some settings_id
      \<and> map_of body ''jiraUrl'' = Some (JStr ''jira.example.com'')
      \<and> map_of body ''geminiToken'' = Some (JStr ''g-123''))"
proof -
  have h: "post_example \<noteq> [] \<and> list_all plain_field (map fst post_example)
     \<and> ''_id'' \<notin> fst ` set post_example \<and> distinct (map fst post_example)"
    by (simp add: post_example_def plain_field_def)
  have p: "map_of post_example ''jiraUrl'' = Some (JStr ''jira.example.com'')"
    "''geminiToken'' \<noteq> ''_id'' \<and> map_of post_example ''geminiToken'' = None"
    by (simp_all add: post_example_def)
  have o: "map_of (case db_settings db_saved of Some old \<Rightarrow> old | None \<Rightarrow> []) ''geminiToken''
      = Some (JStr ''g-123'')"
    by (simp add: db_saved_def)
  from settings_merge [of post_example db_saved] h obtain db' body where
    b: "settings db_saved (SettingsPost post_example) = Inr (saved, db')"
      "settings db' SettingsGet = Inr ((200, JDict body), db')"
      "map_of body ''_id'' = Some settings_id"
      "\<forall>k v. map_of post_example k = Some v \<longrightarrow> map_of body k = Some v"
      "\<forall>k. k \<noteq> ''_id'' \<and> map_of post_example k = None \<longrightarrow>
            map_of body k = map_of (case db_settings db_saved of Some old \<Rightarrow> old | None \<Rightarrow> []) k"
    by blast
  from b(4) p(1) have 1: "map_of body ''jiraUrl'' = Some (JStr ''jira.example.com'')" by blast
  from b(5) p(2) o have 2: "map_of body ''geminiToken'' = Some (JStr ''g-123'')" by simp
  from h b(1,2,3) 1 2 show ?thesis by blast
qed

section \<open>Release detail\<close>

text \<open>
  C10.  For a well-formed identifier that matches no stored release, PUT (with a
  non-empty body of ordinary field names) and DELETE answer 200 with their success
  messages and leave the store as it was, so the PUT creates no document; GET on the same
  identifier answers 404.
\<close>

theorem unknown_release_put_delete:
  "ObjectId release_id = Inr oid \<and> db_releases db oid = None \<longrightarrow>
     (data \<noteq> [] \<and> list_all plain_field (map fst data) \<longrightarrow>
        release_detail db release_id (DetailPut data) = Inr (updated, db))
     \<and> release_detail db release_id DetailDelete = Inr (deleted, db)
     \<and> release_detail db release_id DetailGet = Inr (not_found, db)"
proof (intro impI conjI)
  assume a: "ObjectId release_id = Inr oid \<and> db_releases db oid = None"
  then have same: "(db_releases db)(oid := None) = db_releases db"
    by (simp add: fun_upd_idem)
  show "release_detail db release_id DetailDelete = Inr (deleted, db)"
    using a by (simp add: release_detail_def deleted_def same)
  show "release_detail db release_id DetailGet = Inr (not_found, db)"
    using a by (simp add: release_detail_def not_found_def)
  assume "data \<noteq> [] \<and> list_all plain_field (map fst data)"
  then show "release_detail db release_id (DetailPut data) = Inr (updated, db)"
    using a by (simp add: release_detail_def update_one_def updated_def same)
qed

text \<open>The theorem at the example identifier, which no release of the example store has.\<close>

theorem unknown_release_put_delete_witness:
  "ObjectId release_id_example = Inr ''64b7f0c2a1d3e4f5a6b7c8d9''
   \<and> db_releases db_saved ''64b7f0c2a1d3e4f5a6b7c8d9'' = None
   \<and> put_example \<noteq> [] \<and> list_all plain_field (map fst put_example)
   \<and> release_detail db_saved release_id_example (DetailPut put_example) = Inr (updated, db_saved)
   \<and> release_detail db_saved release_id_example DetailDelete = Inr (deleted, db_saved)
   \<and> release_detail db_saved release_id_example DetailGet = Inr (not_found, db_saved)"
proof -
  have i: "ObjectId release_id_example = Inr ''64b7f0c2a1d3e4f5a6b7c8d9''"
    by code_simp
  have n: "db_releases db_saved ''64b7f0c2a1d3e4f5a6b7c8d9'' = None"
    by (simp add: db_saved_def)
  have p: "put_example \<noteq> [] \<and> list_all plain_field (map fst put_example)"
    by (simp add: put_example_def plain_field_def)
  from unknown_release_put_delete [of release_id_example "''64b7f0c2a1d3e4f5a6b7c8d9''" db_saved put_example]
    i n p
  show ?thesis by blast
qed

section \<open>The generate handler: auxiliary facts\<close>

lemma bind_io_Inr:
  "bind_io m f = (Inr y, cs) \<longleftrightarrow>
     (\<exists>x c1 c2. m = (Inr x, c1) \<and> f x = (Inr y, c2) \<and> cs = c1 @ c2)"
proof (cases m)
  case (Pair r c1)
  then show ?thesis by (cases r) (auto split: prod.splits)
qed

lemma pure_io_Inr: "pure_io r = (Inr x, cs) \<longleftrightarrow> r = Inr x \<and> cs = []"
  by (auto simp: pure_io_def)




lemma bind_pure_Inr: "bind_io (pure_io (Inr x)) f = f x"
  by (cases "f x") (simp add: pure_io_def)

lemma generate_unfold:
  assumes oid: "ObjectId release_id = Inr oid"
    and rel: "db_releases db oid = Some release"
    and sc: "settings_complete db"
  shows "generate_release_notes env db release_id =
     bind_io (pure_io (generate_mongo_intro env (doc_get release ''upstreamUrls'' (JStr []))
                         (doc_get release ''version'' (JStr [])))) (\<lambda>mongo_intro.
     bind_io (process_upstream_bugs env (doc_get release ''upstreamBugUrls'' (JStr []))
                (doc_get release ''upstreamUrls'' (JStr [])) (gemini_token_of db)) (\<lambda>upstream_section.
     bind_io (pure_io (ticket_keys (doc_get release ''jiraTickets'' (JStr [])))) (\<lambda>keys.
     bind_io (ticket_loop env (jira_domain db) (jira_email db) (jira_token db) (gemini_token_of db)
                keys []) (\<lambda>tickets.
       if tickets = [] \<and> keys \<noteq> [] then (Inr (nothing_fetched, db), [])
       else bind_io (pure_io (generate_final_markdown env mongo_intro
                        (doc_get release ''releaseHighlights'' (JStr [])) upstream_section tickets
                        (doc_get release ''version'' JNull) (doc_get release ''codename'' JNull)
                        (jira_domain db))) (\<lambda>md.
              (Inr ((200, JDict [(''markdown'', JStr md)]), with_markdown db oid release md), []))))))"
  using sc
  unfolding generate_release_notes_def Let_def oid bind_pure_Inr rel option.case
    settings_complete_def jira_domain_def jira_email_def jira_token_def gemini_token_of_def
    settings_of_def with_markdown_def
  by (simp del: bind_io.simps)

lemma generate_cases:
  assumes g: "generate_release_notes env db release_id = (Inr (resp, db'), calls)"
    and oid: "ObjectId release_id = Inr oid"
    and rel: "db_releases db oid = Some release"
    and sc: "settings_complete db"
  shows "\<exists>mongo_intro upstream_section keys tickets c1 c2.
      generate_mongo_intro env (doc_get release ''upstreamUrls'' (JStr []))
          (doc_get release ''version'' (JStr [])) = Inr mongo_intro
    \<and> process_upstream_bugs env (doc_get release ''upstreamBugUrls'' (JStr []))
          (doc_get release ''upstreamUrls'' (JStr [])) (gemini_token_of db) = (Inr upstream_section, c1)
    \<and> ticket_keys (doc_get release ''jiraTickets'' (JStr [])) = Inr keys
    \<and> ticket_loop env (jira_domain db) (jira_email db) (jira_token db) (gemini_token_of db) keys []
          = (Inr tickets, c2)
    \<and> calls = c1 @ c2
    \<and> (if tickets = [] \<and> keys \<noteq> [] then resp = nothing_fetched \<and> db' = db
        else \<exists>md. generate_final_markdown env mongo_intro (doc_get release ''releaseHighlights'' (JStr []))
                    upstream_section tickets (doc_get release ''version'' JNull)
                    (doc_get release ''codename'' JNull) (jira_domain db) = Inr md
               \<and> resp = (200, JDict [(''markdown'', JStr md)])
               \<and> db' = with_markdown db oid release md)"
proof -
  from g [unfolded generate_unfold [OF oid rel sc] bind_io_Inr pure_io_Inr]
  obtain mongo_intro upstream_section c1 keys tickets c2 c3 where
    i: "generate_mongo_intro env (doc_get release ''upstreamUrls'' (JStr []))
          (doc_get release ''version'' (JStr [])) = Inr mongo_intro"
    and u: "process_upstream_bugs env (doc_get release ''upstreamBugUrls'' (JStr []))
          (doc_get release ''upstreamUrls'' (JStr [])) (gemini_token_of db) = (Inr upstream_section, c1)"
    and k: "ticket_keys (doc_get release ''jiraTickets'' (JStr [])) = Inr keys"
    and l: "ticket_loop env (jira_domain db) (jira_email db) (jira_token db) (gemini_token_of db) keys []
          = (Inr tickets, c2)"
    and r: "(if tickets = [] \<and> keys \<noteq> [] then (Inr (nothing_fetched, db), [])
       else bind_io (pure_io (generate_final_markdown env mongo_intro
                        (doc_get release ''releaseHighlights'' (JStr [])) upstream_section tickets
                        (doc_get release ''version'' JNull) (doc_get release ''codename'' JNull)
                        (jira_domain db))) (\<lambda>md.
              (Inr ((200, JDict [(''markdown'', JStr md)]), with_markdown db oid release md), [])))
        = (Inr (resp, db'), c3)"
    and c: "calls = c1 @ c2 @ c3"
    by auto
  show ?thesis
  proof (cases "tickets = [] \<and> keys \<noteq> []")
    case True
    with r have "resp = nothing_fetched" "db' = db" "c3 = []" by auto
    with True i u k l c show ?thesis by auto
  next
    case False
    with r obtain md where
      "generate_final_markdown env mongo_intro (doc_get release ''releaseHighlights'' (JStr []))
          upstream_section tickets (doc_get release ''version'' JNull)
          (doc_get release ''codename'' JNull) (jira_domain db) = Inr md"
      "resp = (200, JDict [(''markdown'', JStr md)])" "db' = with_markdown db oid release md" "c3 = []"
      by (auto simp: bind_io_Inr pure_io_Inr simp del: bind_io.simps)
    with False i u k l c show ?thesis by auto
  qed
qed





lemma generate_invalid_id:
  "ObjectId release_id = Inl e \<Longrightarrow> generate_release_notes env db release_id = (Inl e, [])"
  by (simp add: generate_release_notes_def pure_io_def)

lemma generate_not_found:
  "ObjectId release_id = Inr oid \<Longrightarrow> db_releases db oid = None \<Longrightarrow>
   generate_release_notes env db release_id = (Inr (not_found, db), [])"
  by (simp add: generate_release_notes_def bind_pure_Inr del: bind_io.simps)

lemma generate_incomplete:
  "ObjectId release_id = Inr oid \<Longrightarrow> db_releases db oid = Some release \<Longrightarrow>
   \<not> settings_complete db \<Longrightarrow>
   generate_release_notes env db release_id = (Inr (settings_incomplete, db), [])"
  unfolding generate_release_notes_def Let_def settings_complete_def jira_domain_def jira_email_def
    jira_token_def settings_of_def
  by (simp add: bind_pure_Inr del: bind_io.simps)

lemma example_oid: "ObjectId release_id_example = Inr oid_example"
  by code_simp

lemma example_release: "db_releases db_ready oid_example = Some release_example"
  by (simp add: db_ready_def releases_example_def)

lemma example_settings:
  "jira_domain db_ready = JStr ''jira.example.com''"
  "jira_email db_ready = JStr ''notes@example.com''"
  "jira_token db_ready = JStr ''s3cret''"
  "gemini_token_of db_ready = JNull"
  by (simp_all add: jira_domain_def jira_email_def jira_token_def gemini_token_of_def settings_of_def
      find_settings_def db_ready_def jira_settings_def doc_get_def)

lemma example_complete: "settings_complete db_ready"
  by (simp add: settings_complete_def example_settings)

lemma example_fields:
  "doc_get release_example ''upstreamUrls'' (JStr []) = JStr []"
  "doc_get release_example ''upstreamBugUrls'' (JStr []) = JStr []"
  "doc_get release_example ''releaseHighlights'' (JStr []) = JStr []"
  "doc_get release_example ''version'' (JStr []) = JStr ''1.2.3''"
  "doc_get release_example ''version'' JNull = JStr ''1.2.3''"
  "doc_get release_example ''codename'' JNull = JNull"
  "doc_get release_example ''jiraTickets'' (JStr []) = JStr ''ABC-2, abc-1,,ABC-2''"
  by (simp_all add: doc_get_def release_example_def)

lemma no_intro: "generate_mongo_intro env (JStr []) version = Inr []"
  by (simp add: generate_mongo_intro_def nonblank_def)

lemma no_upstream: "process_upstream_bugs env (JStr []) release_urls_raw gemini_token = (Inr [], [])"
  by (simp add: process_upstream_bugs_def nonblank_def pure_io_def)

lemma example_keys: "ticket_keys (JStr ''ABC-2, abc-1,,ABC-2'') = Inr [''ABC-2'', ''abc-1'']"
  by code_simp

lemma example_upper: "map upper [''ABC-2'', ''abc-1''] = [''ABC-2'', ''ABC-1'']"
  by code_simp

lemma loop_down:
  "ticket_loop env_example (JStr ''jira.example.com'') (JStr ''notes@example.com'') (JStr ''s3cret'') JNull
     [''ABC-2'', ''abc-1''] [] = (Inr [], jira_calls)"
  by code_simp

lemma generate_down:
  "generate_release_notes env_example db_ready release_id_example = (Inr (nothing_fetched, db_ready), jira_calls)"
  unfolding generate_unfold [OF example_oid example_release example_complete]
    example_fields example_settings no_intro no_upstream example_keys bind_pure_Inr loop_down
  by simp




lemma loop_jira:
  "ticket_loop env_jira (JStr ''jira.example.com'') (JStr ''notes@example.com'') (JStr ''s3cret'') JNull
     [''ABC-2'', ''abc-1''] [] = (Inr [summarized ''ABC-2'', summarized ''ABC-1''], jira_calls)"
  by code_simp

lemma final_jira:
  "generate_final_markdown env_jira [] (JStr []) [] [summarized ''ABC-2'', summarized ''ABC-1'']
     (JStr ''1.2.3'') JNull (JStr ''jira.example.com'') = Inr markdown_example"
  by code_simp

lemma generate_jira:
  "generate_release_notes env_jira db_ready release_id_example =
     (Inr ((200, JDict [(''markdown'', JStr markdown_example)]),
           with_markdown db_ready oid_example release_example markdown_example), jira_calls)"
  unfolding generate_unfold [OF example_oid example_release example_complete]
    example_fields example_settings no_intro no_upstream example_keys bind_pure_Inr loop_jira
  by (simp add: final_jira pure_io_def)

section \<open>The generate handler: responses\<close>




section \<open>The generate handler: the store\<close>

text \<open>
  C9.  Whenever the generate handler answers with a status other than 200, that status is
  404 or 400 and the store is the one it started from.  When it answers 200, the store
  differs from the old one only in the \<^verbatim>\<open>generatedMarkdown\<close> field of the release, which
  holds the markdown the assembler returned, the same that the response carries.  (An
  exception returns no store: the single write is the last step of the handler.)
\<close>

theorem markdown_written_on_success:
  "generate_release_notes env db release_id = (Inr ((status, body), db'), calls) \<longrightarrow>
     (status \<noteq> 200 \<longrightarrow> db' = db \<and> (status = 404 \<or> status = 400))
   \<and> (status = 200 \<longrightarrow>
        (\<exists>oid release mongo_intro upstream_section tickets md.
           ObjectId release_id = Inr oid \<and> db_releases db oid = Some release
         \<and> generate_final_markdown env mongo_intro (doc_get release ''releaseHighlights'' (JStr []))
              upstream_section tickets (doc_get release ''version'' JNull)
              (doc_get release ''codename'' JNull) (jira_domain db) = Inr md
         \<and> body = JDict [(''markdown'', JStr md)]
         \<and> db' = with_markdown db oid release md))"
proof
  assume g: "generate_release_notes env db release_id = (Inr ((status, body), db'), calls)"
  show "(status \<noteq> 200 \<longrightarrow> db' = db \<and> (status = 404 \<or> status = 400))
   \<and> (status = 200 \<longrightarrow>
        (\<exists>oid release mongo_intro upstream_section tickets md.
           ObjectId release_id = Inr oid \<and> db_releases db oid = Some release
         \<and> generate_final_markdown env mongo_intro (doc_get release ''releaseHighlights'' (JStr []))
              upstream_section tickets (doc_get release ''version'' JNull)
              (doc_get release ''codename'' JNull) (jira_domain db) = Inr md
         \<and> body = JDict [(''markdown'', JStr md)]
         \<and> db' = with_markdown db oid release md))"
  proof (cases "ObjectId release_id")
    case (Inl e)
    from generate_invalid_id [OF Inl, of env db] g show ?thesis by simp
  next
    case (Inr oid)
    show ?thesis
    proof (cases "db_releases db oid")
      case None
      from generate_not_found [OF Inr None, of env] g show ?thesis
        by (simp add: not_found_def)
    next
      case (Some release)
      show ?thesis
      proof (cases "settings_complete db")
        case False
        from generate_incomplete [OF Inr Some False, of env] g show ?thesis
          by (simp add: settings_incomplete_def)
      next
        case True
        from generate_cases [OF g Inr Some True] Inr Some show ?thesis
          by (auto simp: nothing_fetched_def split: if_splits)
      qed
    qed
  qed
qed

text \<open>The theorem at the example release: a tracker that is down gives a 400 and the old
  store; a tracker that answers gives a 200 and the store with the markdown.\<close>

theorem markdown_written_on_success_witness:
  "generate_release_notes env_example db_ready release_id_example
     = (Inr ((400, JDict [(''error'', JStr ''Could not fetch data for any JIRA tickets.'')]), db_ready),
        jira_calls)
   \<and> generate_release_notes env_jira db_ready release_id_example
     = (Inr ((200, JDict [(''markdown'', JStr markdown_example)]),
             with_markdown db_ready oid_example release_example markdown_example), jira_calls)
   \<and> (\<exists>oid release mongo_intro upstream_section tickets.
         ObjectId release_id_example = Inr oid \<and> db_releases db_ready oid = Some release
       \<and> generate_final_markdown env_jira mongo_intro (doc_get release ''releaseHighlights'' (JStr []))
            upstream_section tickets (doc_get release ''version'' JNull)
            (doc_get release ''codename'' JNull) (jira_domain db_ready) = Inr markdown_example
       \<and> with_markdown db_ready oid_example release_example markdown_example
            = with_markdown db_ready oid release markdown_example)"
proof -
  have d: "generate_release_notes env_example db_ready release_id_example
     = (Inr ((400, JDict [(''error'', JStr ''Could not fetch data for any JIRA tickets.'')]), db_ready),
        jira_calls)"
    using generate_down by (simp add: nothing_fetched_def)
  from markdown_written_on_success [of env_jira db_ready release_id_example 200
      "JDict [(''markdown'', JStr markdown_example)]"
      "with_markdown db_ready oid_example release_example markdown_example" jira_calls]
    generate_jira
  have "\<exists>oid release mongo_intro upstream_section tickets.
         ObjectId release_id_example = Inr oid \<and> db_releases db_ready oid = Some release
       \<and> generate_final_markdown env_jira mongo_intro (doc_get release ''releaseHighlights'' (JStr []))
            upstream_section tickets (doc_get release ''version'' JNull)
            (doc_get release ''codename'' JNull) (jira_domain db_ready) = Inr markdown_example
       \<and> with_markdown db_ready oid_example release_example markdown_example
            = with_markdown db_ready oid release markdown_example"
    by auto
  with d generate_jira show ?thesis by blast
qed

section \<open>The generate handler: the order of the fetches\<close>

text \<open>
  C1.  For the ticket field \<^verbatim>\<open>"ABC-2, abc-1,,ABC-2"\<close> the handler splits the field,
  drops the blanks and the repeated \<^verbatim>\<open>ABC-2\<close>, and sorts the remaining strings as they
  were typed, so \<^verbatim>\<open>ABC-2\<close> comes before \<^verbatim>\<open>abc-1\<close>; the upper case is applied afterwards,
  to each key as it is fetched.  The requests sent are therefore for \<^verbatim>\<open>ABC-2\<close> and then
  \<^verbatim>\<open>ABC-1\<close>.  For the same reason \<^verbatim>\<open>"abc-1, ABC-1"\<close> keeps both spellings, which are
  fetched as \<^verbatim>\<open>ABC-1\<close> twice.
\<close>

theorem fetch_order:
  "ticket_keys (JStr ''ABC-2, abc-1,,ABC-2'') = Inr [''ABC-2'', ''abc-1'']
   \<and> map upper [''ABC-2'', ''abc-1''] = [''ABC-2'', ''ABC-1'']
   \<and> generate_release_notes env_example db_ready release_id_example =
       (Inr (nothing_fetched, db_ready),
        [JiraGet ''https://jira.example.com/rest/api/3/issue/ABC-2'' (JStr ''notes@example.com'') (JStr ''s3cret''),
         JiraGet ''https://jira.example.com/rest/api/3/issue/ABC-1'' (JStr ''notes@example.com'') (JStr ''s3cret'')])
   \<and> ticket_keys (JStr ''abc-1, ABC-1'') = Inr [''ABC-1'', ''abc-1'']
   \<and> map upper [''ABC-1'', ''abc-1''] = [''ABC-1'', ''ABC-1'']"
proof -
  have "ticket_keys (JStr ''abc-1, ABC-1'') = Inr [''ABC-1'', ''abc-1'']" by code_simp
  moreover have "map upper [''ABC-1'', ''abc-1''] = [''ABC-1'', ''ABC-1'']" by code_simp
  ultimately show ?thesis
    using example_keys example_upper generate_down by (simp add: jira_calls_def)
qed

end
